theory Spec2Isabelle
  imports Complex_Main
begin

section \<open>Data model (src/types, database schema)\<close>

text \<open>
  JavaScript numbers and PostgreSQL floats are modelled as reals: the claims only
  compare and order them. NaN and rounding are outside the model. An exception is
  modelled by its message, a string.
\<close>

datatype json =
    JNull
  | JBool bool
  | JNum real
  | JStr string
  | JArr "json list"
  | JObj "(string \<times> json) list"

type_synonym metadata = "(string \<times> json) list"

type_synonym vec = "real list"

text \<open>A row of the \<open>documents\<close> table; \<open>embedding\<close> and \<open>metadata\<close> are nullable columns.\<close>

record document_row =
  row_id :: string
  row_content :: string
  row_embedding :: "vec option"
  row_metadata :: "metadata option"
  row_created_at :: string

text \<open>A row of the table returned by the SQL function \<open>match_documents\<close>.\<close>

record match_row =
  item_id :: string
  item_content :: string
  item_metadata :: "metadata option"
  item_similarity :: real

text \<open>\<open>interface SearchResult\<close> and \<open>interface VectorDocument\<close>.\<close>

record SearchResult =
  sr_id :: string
  sr_content :: string
  sr_similarity :: real
  sr_metadata :: "metadata option"

record VectorDocument =
  vd_id :: string
  vd_content :: string
  vd_embedding :: vec
  vd_metadata :: "metadata option"

text \<open>The object literal that \<open>addDocument\<close> and \<open>bulkAddDocuments\<close> insert.\<close>

record new_document =
  nd_content :: string
  nd_embedding :: vec
  nd_metadata :: metadata
  nd_created_at :: string

text \<open>The result shape \<open>{ success; data?; error? }\<close> shared by the client functions.\<close>

record 'a result =
  success :: bool
  data :: "'a option"
  error :: "string option"

record bulk_result =
  bulk_success :: bool
  bulk_count :: "nat option"
  bulk_error :: "string option"

record search_options =
  threshold :: "real option"
  maxResults :: "int option"

record chat_options =
  opt_model :: "string option"
  opt_temperature :: "real option"
  opt_maxTokens :: "int option"

record chat_request =
  req_model :: string
  req_messages :: "(string \<times> string) list"
  req_temperature :: real
  req_max_tokens :: int

section \<open>The remote services and the trace of requests\<close>

text \<open>
  The provider and the store are external. Each is a function from the request to its
  outcome: \<open>Inl m\<close> is a thrown error (or the store's \<open>error\<close> object) with message
  \<open>m\<close>, \<open>Inr\<close> the response. \<open>embeddings_create\<close> answers with the
  \<open>embedding\<close> fields of \<open>response.data\<close>, \<open>chat_completions_create\<close> with the
  \<open>message.content\<close> fields of \<open>response.choices\<close> (\<open>None\<close> is \<open>null\<close>),
  \<open>rpc_match_documents\<close> and the inserts with the store's \<open>data\<close> (\<open>None\<close> is
  \<open>null\<close>). \<open>date_now k\<close> is the k-th reading of the clock, as an ISO string.
\<close>

record services =
  embeddings_create :: "string \<Rightarrow> string \<Rightarrow> string + vec list"
  chat_completions_create :: "chat_request \<Rightarrow> string + string option list"
  rpc_match_documents :: "vec \<Rightarrow> real \<Rightarrow> int \<Rightarrow> string + match_row list option"
  insert_single :: "new_document \<Rightarrow> string + VectorDocument"
  insert_select :: "new_document list \<Rightarrow> string + VectorDocument list option"
  date_now :: "nat \<Rightarrow> string"

datatype event =
    EmbeddingsCreate string string
  | ChatCreate chat_request
  | Rpc string vec real int
  | InsertRow string new_document
  | InsertRows string "new_document list"

fun is_chat :: "event \<Rightarrow> bool" where
  "is_chat (ChatCreate _) = True"
| "is_chat _ = False"

fun is_insert :: "event \<Rightarrow> bool" where
  "is_insert (InsertRow _ _) = True"
| "is_insert (InsertRows _ _) = True"
| "is_insert _ = False"

section \<open>JavaScript helpers\<close>

definition newline :: string where
  "newline = [CHR 0x0A]"

text \<open>\<open>s || d\<close> on strings: the empty string and \<open>undefined\<close> are falsy.\<close>

definition or_default :: "string \<Rightarrow> string \<Rightarrow> string" where
  "or_default s d = (if s = [] then d else s)"

definition opt_or_default :: "string option \<Rightarrow> string \<Rightarrow> string" where
  "opt_or_default s d = (case s of None \<Rightarrow> d | Some v \<Rightarrow> or_default v d)"

text \<open>\<open>x || d\<close> on numbers: zero and \<open>undefined\<close> are falsy.\<close>

definition num_or :: "'a::zero option \<Rightarrow> 'a \<Rightarrow> 'a" where
  "num_or x d = (case x of None \<Rightarrow> d | Some v \<Rightarrow> if v = 0 then d else v)"

text \<open>The message of the TypeError raised by reading a property of \<open>undefined\<close>.\<close>

definition undefined_read :: "string \<Rightarrow> string" where
  "undefined_read p = ''Cannot read properties of undefined (reading '' @ [CHR 0x27] @ p @ [CHR 0x27] @ '')''"

text \<open>A number in a template literal: its decimal digits.\<close>

fun show_nat :: "nat \<Rightarrow> string" where
  "show_nat n =
     (if n < 10 then [''0123456789'' ! n]
      else show_nat (n div 10) @ [''0123456789'' ! (n mod 10)])"

declare show_nat.simps [simp del]

text \<open>\<open>Array.prototype.join\<close>.\<close>

fun join :: "string \<Rightarrow> string list \<Rightarrow> string" where
  "join sep [] = []"
| "join sep [x] = x"
| "join sep (x # y # ys) = x @ sep @ join sep (y # ys)"

definition failure :: "string \<Rightarrow> 'a result" where
  "failure m = \<lparr>success = False, data = None, error = Some m\<rparr>"

section \<open>utils/openaiClient.ts\<close>

definition DEFAULT_MODEL :: string where
  "DEFAULT_MODEL = ''gpt-4o-mini''"

definition EMBEDDING_MODEL :: string where
  "EMBEDDING_MODEL = ''text-embedding-3-small''"

definition createChatCompletion ::
  "services \<Rightarrow> (string \<times> string) list \<Rightarrow> chat_options option \<Rightarrow> string result \<times> event list" where
  "createChatCompletion sv msgs options =
     (let req = \<lparr>req_model = opt_or_default (Option.bind options opt_model) DEFAULT_MODEL,
                 req_messages = msgs,
                 req_temperature = num_or (Option.bind options opt_temperature) 0.7,
                 req_max_tokens = num_or (Option.bind options opt_maxTokens) 1000\<rparr>
      in (case chat_completions_create sv req of
            Inl m \<Rightarrow> failure (or_default m ''Failed to generate response'')
          | Inr [] \<Rightarrow> failure (or_default (undefined_read ''message'') ''Failed to generate response'')
          | Inr (c # _) \<Rightarrow> \<lparr>success = True, data = c, error = None\<rparr>,
          [ChatCreate req]))"

definition createEmbedding :: "services \<Rightarrow> string \<Rightarrow> (string + vec) \<times> event list" where
  "createEmbedding sv text =
     (case embeddings_create sv EMBEDDING_MODEL text of
        Inl m \<Rightarrow> Inl (''Failed to create embedding: '' @ m)
      | Inr [] \<Rightarrow> Inl (''Failed to create embedding: '' @ undefined_read ''embedding'')
      | Inr (e # _) \<Rightarrow> Inr e,
      [EmbeddingsCreate EMBEDDING_MODEL text])"

section \<open>utils/vectorDB.ts\<close>

definition DOCUMENTS_TABLE :: string where
  "DOCUMENTS_TABLE = ''documents''"

definition SIMILARITY_THRESHOLD :: real where
  "SIMILARITY_THRESHOLD = 0.7"

definition MAX_RESULTS :: int where
  "MAX_RESULTS = 5"

definition to_result :: "match_row \<Rightarrow> SearchResult" where
  "to_result item =
     \<lparr>sr_id = item_id item, sr_content = item_content item,
      sr_similarity = item_similarity item, sr_metadata = item_metadata item\<rparr>"

definition searchDocuments ::
  "services \<Rightarrow> string \<Rightarrow> search_options option \<Rightarrow> SearchResult list result \<times> event list" where
  "searchDocuments sv query options =
     (case createEmbedding sv query of
        (Inl m, tr) \<Rightarrow> (failure (or_default m ''Failed to search documents''), tr)
      | (Inr queryEmbedding, tr) \<Rightarrow>
          (let match_threshold = num_or (Option.bind options threshold) SIMILARITY_THRESHOLD;
               match_count = num_or (Option.bind options maxResults) MAX_RESULTS;
               tr' = tr @ [Rpc ''match_documents'' queryEmbedding match_threshold match_count]
           in (case rpc_match_documents sv queryEmbedding match_threshold match_count of
                 Inl m \<Rightarrow> (failure (or_default m ''Failed to search documents''), tr')
               | Inr rows \<Rightarrow>
                   (\<lparr>success = True,
                     data = Some (map to_result (case rows of None \<Rightarrow> [] | Some rs \<Rightarrow> rs)),
                     error = None\<rparr>, tr'))))"

definition addDocument ::
  "services \<Rightarrow> string \<Rightarrow> metadata option \<Rightarrow> VectorDocument result \<times> event list" where
  "addDocument sv content md =
     (case createEmbedding sv content of
        (Inl m, tr) \<Rightarrow> (failure (or_default m ''Failed to add document''), tr)
      | (Inr embedding, tr) \<Rightarrow>
          (let document = \<lparr>nd_content = content, nd_embedding = embedding,
                            nd_metadata = (case md of None \<Rightarrow> [] | Some m \<Rightarrow> m),
                            nd_created_at = date_now sv 0\<rparr>;
               tr' = tr @ [InsertRow DOCUMENTS_TABLE document]
           in (case insert_single sv document of
                 Inl m \<Rightarrow> (failure (or_default m ''Failed to add document''), tr')
               | Inr row \<Rightarrow> (\<lparr>success = True, data = Some row, error = None\<rparr>, tr'))))"

text \<open>
  \<open>Promise.all\<close> over the mapped async functions of \<open>bulkAddDocuments\<close>. The
  embedding requests are all issued when the array is mapped; they complete in the
  order \<open>order\<close> (indices into the input). A completing function reads the clock and
  its object is stored at its own index; the first rejection rejects the whole promise.
  The promise is fulfilled once every slot is filled, and stays pending otherwise.
\<close>

datatype 'a settled = Pending | Rejected string | Fulfilled 'a

fun promise_all ::
  "services \<Rightarrow> (string \<times> metadata option) list \<Rightarrow> nat list \<Rightarrow> nat \<Rightarrow> new_document option list
     \<Rightarrow> new_document list settled" where
  "promise_all sv documents [] k slots =
     (case those slots of None \<Rightarrow> Pending | Some ds \<Rightarrow> Fulfilled ds)"
| "promise_all sv documents (i # order) k slots =
     (if i < length documents then
        (case fst (createEmbedding sv (fst (documents ! i))) of
           Inl m \<Rightarrow> Rejected m
         | Inr embedding \<Rightarrow>
             promise_all sv documents order (Suc k)
               (slots[i := Some \<lparr>nd_content = fst (documents ! i), nd_embedding = embedding,
                                 nd_metadata = (case snd (documents ! i) of None \<Rightarrow> [] | Some m \<Rightarrow> m),
                                 nd_created_at = date_now sv k\<rparr>]))
      else promise_all sv documents order k slots)"

definition bulkAddDocuments ::
  "services \<Rightarrow> (string \<times> metadata option) list \<Rightarrow> nat list \<Rightarrow> bulk_result option \<times> event list" where
  "bulkAddDocuments sv documents order =
     (let tr = map (\<lambda>doc. EmbeddingsCreate EMBEDDING_MODEL (fst doc)) documents
      in case promise_all sv documents order 0 (replicate (length documents) None) of
           Pending \<Rightarrow> (None, tr)
         | Rejected m \<Rightarrow>
             (Some \<lparr>bulk_success = False, bulk_count = None,
                    bulk_error = Some (or_default m ''Failed to add documents'')\<rparr>, tr)
         | Fulfilled documentsWithEmbeddings \<Rightarrow>
             (let tr' = tr @ [InsertRows DOCUMENTS_TABLE documentsWithEmbeddings]
              in case insert_select sv documentsWithEmbeddings of
                   Inl m \<Rightarrow>
                     (Some \<lparr>bulk_success = False, bulk_count = None,
                            bulk_error = Some (or_default m ''Failed to add documents'')\<rparr>, tr')
                 | Inr rows \<Rightarrow>
                     (Some \<lparr>bulk_success = True,
                            bulk_count = Some (case rows of None \<Rightarrow> 0 | Some rs \<Rightarrow> length rs),
                            bulk_error = None\<rparr>, tr')))"

text \<open>A schedule of the embedding calls: every index of the input completes once.\<close>

definition valid_order :: "nat list \<Rightarrow> nat \<Rightarrow> bool" where
  "valid_order order n = (sort order = [0..<n])"

text \<open>
  The inserted record \<open>rec\<close> is the one of the input pair at index \<open>i\<close>: its
  content, the vector the embedding call of that content returned, and its metadata
  (empty when omitted).
\<close>

definition corresponds ::
  "services \<Rightarrow> (string \<times> metadata option) list \<Rightarrow> nat \<Rightarrow> new_document \<Rightarrow> bool" where
  "corresponds sv documents i rec =
     (nd_content rec = fst (documents ! i)
      \<and> fst (createEmbedding sv (fst (documents ! i))) = Inr (nd_embedding rec)
      \<and> nd_metadata rec = (case snd (documents ! i) of None \<Rightarrow> [] | Some m \<Rightarrow> m))"

section \<open>The SQL function \<open>match_documents\<close>\<close>

text \<open>
  \<open>distance\<close> is the cosine distance operator of the vector extension, a parameter.
  A row whose embedding is NULL has a NULL similarity and fails the WHERE clause.
  The rows that pass are ordered by distance, at most \<open>match_count\<close> are kept,
  and a negative LIMIT is an error of the database. The ORDER BY names the distance
  only, so the order among rows of equal distance is the database's choice: it is the
  parameter \<open>tie\<close>, a rank of the rows that decides between equal distances.
\<close>

definition candidates :: "(vec \<Rightarrow> vec \<Rightarrow> real) \<Rightarrow> document_row list \<Rightarrow> vec \<Rightarrow> (document_row \<times> real) list" where
  "candidates distance documents query_embedding =
     List.map_filter
       (\<lambda>d. case row_embedding d of None \<Rightarrow> None | Some e \<Rightarrow> Some (d, distance e query_embedding))
       documents"

definition select_row :: "document_row \<times> real \<Rightarrow> match_row" where
  "select_row p =
     \<lparr>item_id = row_id (fst p), item_content = row_content (fst p),
      item_metadata = row_metadata (fst p), item_similarity = 1 - snd p\<rparr>"

definition match_documents ::
  "(document_row \<Rightarrow> nat) \<Rightarrow> (vec \<Rightarrow> vec \<Rightarrow> real) \<Rightarrow> document_row list \<Rightarrow> vec \<Rightarrow> real \<Rightarrow> int
     \<Rightarrow> string + match_row list" where
  "match_documents tie distance documents query_embedding match_threshold match_count =
     (if match_count < 0 then Inl ''LIMIT must not be negative''
      else Inr (map select_row
                 (take (nat match_count)
                   (sort_key snd
                     (sort_key (\<lambda>p. tie (fst p))
                       (filter (\<lambda>p. 1 - snd p > match_threshold)
                         (candidates distance documents query_embedding)))))))"

text \<open>
  The remote procedure call of the store, answering from a table. The database may
  order equal distances differently from one call to the next: \<open>tiebreak\<close> gives
  the rank it uses for the arguments of a call.
\<close>

definition store_rpc ::
  "(vec \<Rightarrow> real \<Rightarrow> int \<Rightarrow> document_row \<Rightarrow> nat) \<Rightarrow> (vec \<Rightarrow> vec \<Rightarrow> real) \<Rightarrow> document_row list
     \<Rightarrow> vec \<Rightarrow> real \<Rightarrow> int \<Rightarrow> string + match_row list option" where
  "store_rpc tiebreak distance documents query_embedding match_threshold match_count =
     (case match_documents (tiebreak query_embedding match_threshold match_count)
             distance documents query_embedding match_threshold match_count of
        Inl m \<Rightarrow> Inl m
      | Inr rows \<Rightarrow> Inr (Some rows))"

section \<open>agents/aiAgent.ts\<close>

definition aiAgentWithSystemPrompt ::
  "services \<Rightarrow> string \<Rightarrow> string \<Rightarrow> (string + string) \<times> event list" where
  "aiAgentWithSystemPrompt sv systemPrompt userInput =
     (case createChatCompletion sv [(''system'', systemPrompt), (''user'', userInput)] None of
        (response, tr) \<Rightarrow>
          (if \<not> success response
           then Inl (opt_or_default (error response) ''Failed to get response'')
           else Inr (opt_or_default (data response) ''No response generated''),
           tr))"

section \<open>agents/ragAgent.ts\<close>

definition NO_INFORMATION :: string where
  "NO_INFORMATION = ''I couldn't find any relevant information in the knowledge base. Please try rephrasing your question or add more context.''"

definition document_block :: "nat \<Rightarrow> SearchResult \<Rightarrow> string" where
  "document_block idx doc = ''[Document '' @ show_nat (idx + 1) @ '']'' @ newline @ sr_content doc"

definition context_of :: "SearchResult list \<Rightarrow> string" where
  "context_of results =
     join (newline @ newline) (map (\<lambda>(idx, doc). document_block idx doc) (enumerate 0 results))"

definition prompt_head :: string where
  "prompt_head = ''You are a helpful assistant with access to a knowledge base. Answer the user's question based on the following relevant documents. If the documents don't contain enough information, say so clearly.''
     @ newline @ newline @ ''Relevant Documents:'' @ newline"

definition prompt_tail :: string where
  "prompt_tail = newline @ newline @ ''Instructions:'' @ newline
     @ ''- Base your answer primarily on the provided documents'' @ newline
     @ ''- If the documents don't fully answer the question, acknowledge the limitations'' @ newline
     @ ''- Cite which document(s) you're referencing when appropriate'' @ newline
     @ ''- Be concise but thorough''"

definition ragAgent :: "services \<Rightarrow> string \<Rightarrow> (string + string) \<times> event list" where
  "ragAgent sv query =
     (case searchDocuments sv query (Some \<lparr>threshold = Some 0.7, maxResults = Some 3\<rparr>) of
        (searchResults, tr) \<Rightarrow>
          (if \<not> success searchResults
           then (Inl (opt_or_default (error searchResults) ''Failed to retrieve relevant documents''), tr)
           else case data searchResults of
                  None \<Rightarrow> (Inl (opt_or_default (error searchResults) ''Failed to retrieve relevant documents''), tr)
                | Some results \<Rightarrow>
                    (if length results = 0 then (Inr NO_INFORMATION, tr)
                     else (let systemPrompt = prompt_head @ context_of results @ prompt_tail
                           in case aiAgentWithSystemPrompt sv systemPrompt query of
                                (response, tr2) \<Rightarrow> (response, tr @ tr2)))))"

text \<open>
  \<open>doc.metadata[key] === value\<close> for a filter value that is JSON: a missing key reads
  \<open>undefined\<close>, scalars compare by value, and an array or an object of the filter is
  never the same reference as one parsed from the store's response.
\<close>

fun strict_equal :: "json option \<Rightarrow> json \<Rightarrow> bool" where
  "strict_equal (Some JNull) JNull = True"
| "strict_equal (Some (JBool a)) (JBool b) = (a = b)"
| "strict_equal (Some (JNum a)) (JNum b) = (a = b)"
| "strict_equal (Some (JStr a)) (JStr b) = (a = b)"
| "strict_equal _ _ = False"


definition matches_filters :: "metadata \<Rightarrow> SearchResult \<Rightarrow> bool" where
  "matches_filters filters doc =
     (case sr_metadata doc of
        None \<Rightarrow> False
      | Some md \<Rightarrow> list_all (\<lambda>(key, v). strict_equal (map_of md key) v) filters)"

text \<open>The body of \<open>hybridSearch\<close> after the search has answered.\<close>

definition hybridSearch_filter ::
  "SearchResult list result \<Rightarrow> metadata option \<Rightarrow> string + SearchResult list" where
  "hybridSearch_filter searchResults filters =
     (if \<not> success searchResults then Inr []
      else case data searchResults of
             None \<Rightarrow> Inr []
           | Some results \<Rightarrow>
               (case filters of
                  None \<Rightarrow> Inr results
                | Some f \<Rightarrow> Inr (filter (matches_filters f) results)))"

definition hybridSearch ::
  "services \<Rightarrow> string \<Rightarrow> metadata option \<Rightarrow> (string + SearchResult list) \<times> event list" where
  "hybridSearch sv query filters =
     (case searchDocuments sv query (Some \<lparr>threshold = Some 0.6, maxResults = Some 10\<rparr>) of
        (searchResults, tr) \<Rightarrow>
          (case hybridSearch_filter searchResults filters of
             Inl e \<Rightarrow> (Inr [], tr)
           | Inr results \<Rightarrow> (Inr results, tr)))"

section \<open>A small knowledge base\<close>

text \<open>
  Four stored rows and services that answer from them, used to run the functions
  above on concrete inputs. The embeddings have one component to keep the terms small,
  and \<open>demo_distance\<close> stands in for the distance operator. No two of the rows
  are at the same distance from a query, so the rank \<open>demo_tiebreak\<close> decides nothing.
\<close>

definition demo_tiebreak :: "vec \<Rightarrow> real \<Rightarrow> int \<Rightarrow> document_row \<Rightarrow> nat" where
  "demo_tiebreak query_embedding match_threshold match_count d = 0"

definition demo_distance :: "vec \<Rightarrow> vec \<Rightarrow> real" where
  "demo_distance a b = \<bar>sum_list a - sum_list b\<bar>"

definition demo_documents :: "document_row list" where
  "demo_documents =
     [\<lparr>row_id = ''d1'', row_content = ''alpha'', row_embedding = Some [0.1],
       row_metadata = Some [(''lang'', JStr ''en''), (''tags'', JArr [JStr ''a''])],
       row_created_at = ''2024-01-01T00:00:00.000Z''\<rparr>,
      \<lparr>row_id = ''d2'', row_content = ''beta'', row_embedding = Some [0.35],
       row_metadata = Some [(''lang'', JStr ''fr'')],
       row_created_at = ''2024-01-02T00:00:00.000Z''\<rparr>,
      \<lparr>row_id = ''d3'', row_content = ''gamma'', row_embedding = None,
       row_metadata = None,
       row_created_at = ''2024-01-03T00:00:00.000Z''\<rparr>,
      \<lparr>row_id = ''d4'', row_content = ''delta'', row_embedding = Some [0.2],
       row_metadata = Some [(''lang'', JStr ''en'')],
       row_created_at = ''2024-01-04T00:00:00.000Z''\<rparr>]"

definition demo_services :: services where
  "demo_services =
     \<lparr>embeddings_create =
        (\<lambda>model input.
           if input = ''down'' then Inl ''rate limit''
           else if input = ''nothing'' then Inr [ [5] ]
           else Inr [ [0] ]),
      chat_completions_create = (\<lambda>req. Inr [Some ''an answer'']),
      rpc_match_documents = store_rpc demo_tiebreak demo_distance demo_documents,
      insert_single =
        (\<lambda>d. Inr \<lparr>vd_id = ''n1'', vd_content = nd_content d, vd_embedding = nd_embedding d,
                    vd_metadata = Some (nd_metadata d)\<rparr>),
      insert_select =
        (\<lambda>ds. Inr (Some (map (\<lambda>d. \<lparr>vd_id = ''n1'', vd_content = nd_content d,
                                       vd_embedding = nd_embedding d,
                                       vd_metadata = Some (nd_metadata d)\<rparr>) ds))),
      date_now = (\<lambda>k. show_nat k)\<rparr>"

text \<open>The same services behind a provider that refuses the empty input.\<close>

definition rejecting_services :: services where
  "rejecting_services =
     demo_services\<lparr>embeddings_create :=
       (\<lambda>model input. if input = [] then Inl ''input must not be empty'' else Inr [ [0] ])\<rparr>"

definition hit1 :: SearchResult where
  "hit1 = \<lparr>sr_id = ''d1'', sr_content = ''alpha'', sr_similarity = 0.9,
           sr_metadata = Some [(''lang'', JStr ''en''), (''tags'', JArr [JStr ''a''])]\<rparr>"

definition hit2 :: SearchResult where
  "hit2 = \<lparr>sr_id = ''d2'', sr_content = ''beta'', sr_similarity = 0.65,
           sr_metadata = Some [(''lang'', JStr ''fr'')]\<rparr>"

definition hit4 :: SearchResult where
  "hit4 = \<lparr>sr_id = ''d4'', sr_content = ''delta'', sr_similarity = 0.8,
           sr_metadata = Some [(''lang'', JStr ''en'')]\<rparr>"

section \<open>Retrieval-augmented answers\<close>

lemma createChatCompletion_trace:
  "\<exists>req. snd (createChatCompletion sv msgs opts) = [ChatCreate req] \<and> req_messages req = msgs"
  by (simp add: createChatCompletion_def Let_def)

lemma createEmbedding_trace:
  "snd (createEmbedding sv text) = [EmbeddingsCreate EMBEDDING_MODEL text]"
  by (simp add: createEmbedding_def)

lemma searchDocuments_no_chat:
  "filter is_chat (snd (searchDocuments sv query options)) = []"
  by (auto simp: searchDocuments_def createEmbedding_def Let_def split: sum.splits list.splits)

text \<open>
  C1. When the similarity search of a query succeeds with zero results, \<open>ragAgent\<close>
  returns the fixed no-relevant-information string, and its trace holds no
  chat-completion request.
\<close>

theorem ragAgent_no_results:
  assumes "success (fst (searchDocuments sv query (Some \<lparr>threshold = Some 0.7, maxResults = Some 3\<rparr>)))"
    and "data (fst (searchDocuments sv query (Some \<lparr>threshold = Some 0.7, maxResults = Some 3\<rparr>))) = Some []"
  shows "fst (ragAgent sv query) = Inr NO_INFORMATION
         \<and> filter is_chat (snd (ragAgent sv query)) = []"
proof -
  obtain r tr where s: "searchDocuments sv query (Some \<lparr>threshold = Some 0.7, maxResults = Some 3\<rparr>) = (r, tr)"
    by (cases "searchDocuments sv query (Some \<lparr>threshold = Some 0.7, maxResults = Some 3\<rparr>)")
  from assms s have r: "success r" "data r = Some []" by simp_all
  have "filter is_chat tr = []"
    using searchDocuments_no_chat [of sv query "Some \<lparr>threshold = Some 0.7, maxResults = Some 3\<rparr>"] s
    by simp
  with r s show ?thesis by (simp add: ragAgent_def)
qed

lemmas demo_simps =
  searchDocuments_def createEmbedding_def demo_services_def demo_documents_def
  demo_distance_def demo_tiebreak_def store_rpc_def match_documents_def candidates_def
  List.map_filter_simps select_row_def to_result_def num_or_def failure_def
  or_default_def SIMILARITY_THRESHOLD_def MAX_RESULTS_def Let_def hit1_def hit2_def
  hit4_def

lemma demo_search_nothing:
  "fst (searchDocuments demo_services ''nothing'' (Some \<lparr>threshold = Some 0.7, maxResults = Some 3\<rparr>))
     = \<lparr>success = True, data = Some [], error = None\<rparr>"
  by (simp add: demo_simps)

theorem ragAgent_no_results_witness:
  "success (fst (searchDocuments demo_services ''nothing'' (Some \<lparr>threshold = Some 0.7, maxResults = Some 3\<rparr>)))
   \<and> data (fst (searchDocuments demo_services ''nothing'' (Some \<lparr>threshold = Some 0.7, maxResults = Some 3\<rparr>))) = Some []
   \<and> fst (ragAgent demo_services ''nothing'') = Inr NO_INFORMATION
   \<and> filter is_chat (snd (ragAgent demo_services ''nothing'')) = []"
  using ragAgent_no_results [of demo_services "''nothing''"] demo_search_nothing
  by simp

lemma demo_search_07:
  "fst (searchDocuments demo_services ''q'' (Some \<lparr>threshold = Some 0.7, maxResults = Some 3\<rparr>))
     = \<lparr>success = True, data = Some [hit1, hit4], error = None\<rparr>"
  by (simp add: demo_simps)

lemma demo_search_05:
  "fst (searchDocuments demo_services ''q'' (Some \<lparr>threshold = Some 0.5, maxResults = Some 3\<rparr>))
     = \<lparr>success = True, data = Some [hit1, hit4, hit2], error = None\<rparr>"
  by (simp add: demo_simps)

lemma demo_search_down:
  "fst (searchDocuments demo_services ''down'' opts) = failure ''Failed to create embedding: rate limit''"
  by (simp add: demo_simps)

section \<open>Defaults of the search options\<close>

lemma searchDocuments_run:
  assumes "fst (createEmbedding sv query) = Inr qe"
  shows "searchDocuments sv query options =
     (case rpc_match_documents sv qe (num_or (Option.bind options threshold) SIMILARITY_THRESHOLD)
             (num_or (Option.bind options maxResults) MAX_RESULTS) of
        Inl m \<Rightarrow> \<lparr>success = False, data = None,
                   error = Some (if m = [] then ''Failed to search documents'' else m)\<rparr>
      | Inr rows \<Rightarrow> \<lparr>success = True,
                      data = Some (map to_result (case rows of None \<Rightarrow> [] | Some rs \<Rightarrow> rs)),
                      error = None\<rparr>,
      [EmbeddingsCreate EMBEDDING_MODEL query,
       Rpc ''match_documents'' qe (num_or (Option.bind options threshold) SIMILARITY_THRESHOLD)
         (num_or (Option.bind options maxResults) MAX_RESULTS)])"
proof -
  obtain tr where c: "createEmbedding sv query = (Inr qe, tr)"
    using assms by (cases "createEmbedding sv query") auto
  then have "tr = [EmbeddingsCreate EMBEDDING_MODEL query]"
    using createEmbedding_trace [of sv query] by simp
  with c show ?thesis
    by (simp add: searchDocuments_def Let_def failure_def or_default_def split: sum.splits)
qed

lemma searchDocuments_sends_nonzero:
  assumes "Rpc n qe t c \<in> set (snd (searchDocuments sv query options))"
  shows "t \<noteq> 0 \<and> c \<noteq> 0"
proof (cases "fst (createEmbedding sv query)")
  case (Inl m)
  then obtain tr where c: "createEmbedding sv query = (Inl m, tr)"
    by (cases "createEmbedding sv query") auto
  then have "tr = [EmbeddingsCreate EMBEDDING_MODEL query]"
    using createEmbedding_trace [of sv query] by simp
  with c assms show ?thesis by (simp add: searchDocuments_def)
next
  case (Inr e)
  from assms show ?thesis
    unfolding searchDocuments_run [OF Inr]
    by (auto simp: num_or_def SIMILARITY_THRESHOLD_def MAX_RESULTS_def split: option.splits if_splits)
qed

text \<open>
  C9. A threshold of 0 is replaced by the default 0.7 and a maxResults of 0 by the
  default 5, as an omitted option is: the search with threshold 0 returns the same
  result and sends the same requests as the search with threshold 0.7, and likewise
  for maxResults 0 and 5. When the query is embedded, the search with both options 0
  sends the store exactly the threshold 0.7 and the count 5 and answers from what
  the store returns for them; a zero threshold beside a non-zero count sends 0.7 and
  that count, and a zero count beside a non-zero threshold sends that threshold and 5.
  Whatever the options, no request to the store carries the threshold 0 or the count 0.
\<close>

theorem searchDocuments_zero_is_default:
  "searchDocuments sv query (Some \<lparr>threshold = Some 0, maxResults = m\<rparr>)
     = searchDocuments sv query (Some \<lparr>threshold = Some 0.7, maxResults = m\<rparr>)
   \<and> searchDocuments sv query (Some \<lparr>threshold = Some 0, maxResults = m\<rparr>)
     = searchDocuments sv query (Some \<lparr>threshold = None, maxResults = m\<rparr>)
   \<and> searchDocuments sv query (Some \<lparr>threshold = t, maxResults = Some 0\<rparr>)
     = searchDocuments sv query (Some \<lparr>threshold = t, maxResults = Some 5\<rparr>)
   \<and> searchDocuments sv query (Some \<lparr>threshold = t, maxResults = Some 0\<rparr>)
     = searchDocuments sv query (Some \<lparr>threshold = t, maxResults = None\<rparr>)
   \<and> searchDocuments sv query (Some \<lparr>threshold = Some 0, maxResults = Some 0\<rparr>)
     = searchDocuments sv query None
   \<and> (\<forall>qe. fst (createEmbedding sv query) = Inr qe \<longrightarrow>
         searchDocuments sv query (Some \<lparr>threshold = Some 0, maxResults = Some 0\<rparr>)
           = (case rpc_match_documents sv qe 0.7 5 of
                Inl e \<Rightarrow> \<lparr>success = False, data = None,
                           error = Some (if e = [] then ''Failed to search documents'' else e)\<rparr>
              | Inr rows \<Rightarrow> \<lparr>success = True,
                              data = Some (map to_result (case rows of None \<Rightarrow> [] | Some rs \<Rightarrow> rs)),
                              error = None\<rparr>,
              [EmbeddingsCreate EMBEDDING_MODEL query, Rpc ''match_documents'' qe 0.7 5])
         \<and> (\<forall>c. c \<noteq> 0 \<longrightarrow>
               snd (searchDocuments sv query (Some \<lparr>threshold = Some 0, maxResults = Some c\<rparr>))
                 = [EmbeddingsCreate EMBEDDING_MODEL query, Rpc ''match_documents'' qe 0.7 c])
         \<and> (\<forall>x. x \<noteq> 0 \<longrightarrow>
               snd (searchDocuments sv query (Some \<lparr>threshold = Some x, maxResults = Some 0\<rparr>))
                 = [EmbeddingsCreate EMBEDDING_MODEL query, Rpc ''match_documents'' qe x 5]))
   \<and> (\<forall>options n qe x c.
         Rpc n qe x c \<in> set (snd (searchDocuments sv query options)) \<longrightarrow> x \<noteq> 0 \<and> c \<noteq> 0)"
proof -
  have eqs: "searchDocuments sv query (Some \<lparr>threshold = Some 0, maxResults = m\<rparr>)
     = searchDocuments sv query (Some \<lparr>threshold = Some 0.7, maxResults = m\<rparr>)
   \<and> searchDocuments sv query (Some \<lparr>threshold = Some 0, maxResults = m\<rparr>)
     = searchDocuments sv query (Some \<lparr>threshold = None, maxResults = m\<rparr>)
   \<and> searchDocuments sv query (Some \<lparr>threshold = t, maxResults = Some 0\<rparr>)
     = searchDocuments sv query (Some \<lparr>threshold = t, maxResults = Some 5\<rparr>)
   \<and> searchDocuments sv query (Some \<lparr>threshold = t, maxResults = Some 0\<rparr>)
     = searchDocuments sv query (Some \<lparr>threshold = t, maxResults = None\<rparr>)
   \<and> searchDocuments sv query (Some \<lparr>threshold = Some 0, maxResults = Some 0\<rparr>)
     = searchDocuments sv query None"
    by (simp add: searchDocuments_def num_or_def SIMILARITY_THRESHOLD_def MAX_RESULTS_def
        split: prod.splits sum.splits)
  have sent: "searchDocuments sv query (Some \<lparr>threshold = Some 0, maxResults = Some 0\<rparr>)
           = (case rpc_match_documents sv qe 0.7 5 of
                Inl e \<Rightarrow> \<lparr>success = False, data = None,
                           error = Some (if e = [] then ''Failed to search documents'' else e)\<rparr>
              | Inr rows \<Rightarrow> \<lparr>success = True,
                              data = Some (map to_result (case rows of None \<Rightarrow> [] | Some rs \<Rightarrow> rs)),
                              error = None\<rparr>,
              [EmbeddingsCreate EMBEDDING_MODEL query, Rpc ''match_documents'' qe 0.7 5])
         \<and> (\<forall>c. c \<noteq> 0 \<longrightarrow>
               snd (searchDocuments sv query (Some \<lparr>threshold = Some 0, maxResults = Some c\<rparr>))
                 = [EmbeddingsCreate EMBEDDING_MODEL query, Rpc ''match_documents'' qe 0.7 c])
         \<and> (\<forall>x. x \<noteq> 0 \<longrightarrow>
               snd (searchDocuments sv query (Some \<lparr>threshold = Some x, maxResults = Some 0\<rparr>))
                 = [EmbeddingsCreate EMBEDDING_MODEL query, Rpc ''match_documents'' qe x 5])"
    if "fst (createEmbedding sv query) = Inr qe" for qe
    by (simp add: searchDocuments_run [OF that] num_or_def SIMILARITY_THRESHOLD_def MAX_RESULTS_def)
  from eqs sent searchDocuments_sends_nonzero show ?thesis by blast
qed

theorem searchDocuments_zero_is_default_witness:
  "fst (createEmbedding demo_services ''q'') = Inr [0]
   \<and> searchDocuments demo_services ''q'' (Some \<lparr>threshold = Some 0, maxResults = Some 0\<rparr>)
       = (\<lparr>success = True, data = Some [hit1, hit4], error = None\<rparr>,
          [EmbeddingsCreate EMBEDDING_MODEL ''q'', Rpc ''match_documents'' [0] 0.7 5])
   \<and> snd (searchDocuments demo_services ''q'' (Some \<lparr>threshold = Some 0, maxResults = Some 3\<rparr>))
       = [EmbeddingsCreate EMBEDDING_MODEL ''q'', Rpc ''match_documents'' [0] 0.7 3]
   \<and> snd (searchDocuments demo_services ''q'' (Some \<lparr>threshold = Some 0.5, maxResults = Some 0\<rparr>))
       = [EmbeddingsCreate EMBEDDING_MODEL ''q'', Rpc ''match_documents'' [0] 0.5 5]"
proof -
  have e: "fst (createEmbedding demo_services ''q'') = Inr [0]"
    by (simp add: createEmbedding_def demo_services_def)
  have rpc: "rpc_match_documents demo_services [0] 0.7 5
      = Inr (Some [\<lparr>item_id = ''d1'', item_content = ''alpha'',
                     item_metadata = Some [(''lang'', JStr ''en''), (''tags'', JArr [JStr ''a''])],
                     item_similarity = 0.9\<rparr>,
                   \<lparr>item_id = ''d4'', item_content = ''delta'',
                     item_metadata = Some [(''lang'', JStr ''en'')], item_similarity = 0.8\<rparr>])"
    by (simp add: demo_simps)
  note t = searchDocuments_zero_is_default [of demo_services "''q''" None None,
      THEN conjunct2, THEN conjunct2, THEN conjunct2, THEN conjunct2, THEN conjunct2,
      THEN conjunct1, rule_format, OF e]
  from t have "searchDocuments demo_services ''q'' (Some \<lparr>threshold = Some 0, maxResults = Some 0\<rparr>)
       = (\<lparr>success = True, data = Some [hit1, hit4], error = None\<rparr>,
          [EmbeddingsCreate EMBEDDING_MODEL ''q'', Rpc ''match_documents'' [0] 0.7 5])"
    by (simp add: rpc to_result_def hit1_def hit4_def)
  moreover from t have "snd (searchDocuments demo_services ''q'' (Some \<lparr>threshold = Some 0, maxResults = Some 3\<rparr>))
       = [EmbeddingsCreate EMBEDDING_MODEL ''q'', Rpc ''match_documents'' [0] 0.7 3]"
    by simp
  moreover from t have "snd (searchDocuments demo_services ''q'' (Some \<lparr>threshold = Some 0.5, maxResults = Some 0\<rparr>))
       = [EmbeddingsCreate EMBEDDING_MODEL ''q'', Rpc ''match_documents'' [0] 0.5 5]"
    by simp
  ultimately show ?thesis using e by blast
qed

section \<open>The embedding client\<close>

text \<open>
  C7, as the code has it. \<open>createEmbedding\<close> fails, with the prefixed message, when
  the remote call throws or the response holds no first item; otherwise it returns the
  first item's vector exactly as received, of whatever length. It checks no
  dimensionality, and it neither substitutes, truncates nor pads a vector.
\<close>

theorem createEmbedding_verbatim:
  "(case embeddings_create sv EMBEDDING_MODEL text of
      Inl m \<Rightarrow> fst (createEmbedding sv text) = Inl (''Failed to create embedding: '' @ m)
    | Inr [] \<Rightarrow> fst (createEmbedding sv text)
                 = Inl (''Failed to create embedding: '' @ undefined_read ''embedding'')
    | Inr (e # es) \<Rightarrow> fst (createEmbedding sv text) = Inr e)
   \<and> snd (createEmbedding sv text) = [EmbeddingsCreate EMBEDDING_MODEL text]"
  by (simp add: createEmbedding_def split: sum.splits list.splits)

text \<open>
  C7 as stated fails: the provider answers the query with a vector of one component,
  not 1536, and \<open>createEmbedding\<close> returns it without an error.
\<close>

theorem createEmbedding_wrong_dimension:
  "embeddings_create demo_services EMBEDDING_MODEL ''q'' = Inr [ [0] ]
   \<and> length [0::real] \<noteq> 1536
   \<and> fst (createEmbedding demo_services ''q'') = Inr [0]"
  by (simp add: createEmbedding_def demo_services_def)

section \<open>Ingestion\<close>

text \<open>
  C4, as the code has it. \<open>addDocument\<close> does not look at the content: for the empty
  content its first request is the embedding request for the empty string, and it
  succeeds exactly when the provider answers that request with a vector and the store
  accepts the insert of that vector with the empty content. Otherwise it returns
  \<open>success = false\<close>, no data and a non-empty error message: the provider's failure
  behind the prefix of \<open>createEmbedding\<close>, or the store's message, or
  \<open>Failed to add document\<close> when the store's message is empty.
\<close>

theorem addDocument_empty_content:
  "take 1 (snd (addDocument sv [] md)) = [EmbeddingsCreate EMBEDDING_MODEL []]
   \<and> success (fst (addDocument sv [] md))
     = (\<exists>e es row.
          embeddings_create sv EMBEDDING_MODEL [] = Inr (e # es)
          \<and> insert_single sv \<lparr>nd_content = [], nd_embedding = e,
                                nd_metadata = (case md of None \<Rightarrow> [] | Some m \<Rightarrow> m),
                                nd_created_at = date_now sv 0\<rparr> = Inr row)
   \<and> fst (addDocument sv [] md)
     = (case embeddings_create sv EMBEDDING_MODEL [] of
          Inl m \<Rightarrow> \<lparr>success = False, data = None,
                     error = Some (''Failed to create embedding: '' @ m)\<rparr>
        | Inr [] \<Rightarrow> \<lparr>success = False, data = None,
                      error = Some (''Failed to create embedding: '' @ undefined_read ''embedding'')\<rparr>
        | Inr (e # es) \<Rightarrow>
            (case insert_single sv \<lparr>nd_content = [], nd_embedding = e,
                                     nd_metadata = (case md of None \<Rightarrow> [] | Some m \<Rightarrow> m),
                                     nd_created_at = date_now sv 0\<rparr> of
               Inl m \<Rightarrow> \<lparr>success = False, data = None,
                          error = Some (if m = [] then ''Failed to add document'' else m)\<rparr>
             | Inr row \<Rightarrow> \<lparr>success = True, data = Some row, error = None\<rparr>))
   \<and> (\<not> success (fst (addDocument sv [] md))
        \<longrightarrow> (\<exists>m. m \<noteq> [] \<and> fst (addDocument sv [] md)
                              = \<lparr>success = False, data = None, error = Some m\<rparr>))"
  by (auto simp: addDocument_def createEmbedding_def failure_def or_default_def Let_def
           split: sum.splits list.splits)

theorem addDocument_empty_content_witness:
  "\<not> success (fst (addDocument rejecting_services [] None))
   \<and> addDocument rejecting_services [] None
       = (\<lparr>success = False, data = None,
            error = Some ''Failed to create embedding: input must not be empty''\<rparr>,
          [EmbeddingsCreate EMBEDDING_MODEL []])"
proof -
  have f: "\<not> success (fst (addDocument rejecting_services [] None))"
    by (simp add: addDocument_def createEmbedding_def rejecting_services_def failure_def)
  have tr: "snd (addDocument rejecting_services [] None) = [EmbeddingsCreate EMBEDDING_MODEL []]"
    by (simp add: addDocument_def createEmbedding_def rejecting_services_def)
  from addDocument_empty_content [of rejecting_services None] f
  have "fst (addDocument rejecting_services [] None)
          = \<lparr>success = False, data = None,
             error = Some ''Failed to create embedding: input must not be empty''\<rparr>"
    by (simp add: rejecting_services_def)
  with f tr show ?thesis by (simp add: prod_eq_iff)
qed

text \<open>
  C4 as stated fails: with the empty content the embedding request is sent, the row is
  inserted, and the call succeeds.
\<close>

theorem addDocument_empty_content_accepted:
  "success (fst (addDocument demo_services [] None))
   \<and> snd (addDocument demo_services [] None)
     = [EmbeddingsCreate EMBEDDING_MODEL [],
        InsertRow DOCUMENTS_TABLE
          \<lparr>nd_content = [], nd_embedding = [0], nd_metadata = [], nd_created_at = ''0''\<rparr>]"
  by (simp add: addDocument_def createEmbedding_def demo_services_def Let_def show_nat.simps)

section \<open>Hybrid search\<close>

text \<open>
  C10. \<open>hybridSearch\<close> always returns a list and never an error; when the search
  reports failure or carries no data, the list is empty.
\<close>

theorem hybridSearch_never_fails:
  "(\<exists>results. fst (hybridSearch sv query filters) = Inr results)
   \<and> (\<not> success (fst (searchDocuments sv query (Some \<lparr>threshold = Some 0.6, maxResults = Some 10\<rparr>)))
        \<or> data (fst (searchDocuments sv query (Some \<lparr>threshold = Some 0.6, maxResults = Some 10\<rparr>))) = None
      \<longrightarrow> fst (hybridSearch sv query filters) = Inr [])
   \<and> (\<not> success response \<or> data response = None
      \<longrightarrow> hybridSearch_filter response filters = Inr [])"
  by (auto simp: hybridSearch_def hybridSearch_filter_def
           split: prod.splits sum.splits option.splits)

theorem hybridSearch_never_fails_witness:
  "\<not> success (fst (searchDocuments demo_services ''down'' (Some \<lparr>threshold = Some 0.6, maxResults = Some 10\<rparr>)))
   \<and> fst (hybridSearch demo_services ''down'' (Some [(''lang'', JStr ''en'')])) = Inr []
   \<and> hybridSearch_filter (\<lparr>success = True, data = None, error = None\<rparr>) (Some [(''lang'', JStr ''en'')]) = Inr []"
  using hybridSearch_never_fails [of demo_services "''down''" "Some [(''lang'', JStr ''en'')]"
      "\<lparr>success = True, data = None, error = None\<rparr>"]
    demo_search_down [of "Some \<lparr>threshold = Some 0.6, maxResults = Some 10\<rparr>"]
  by (simp add: failure_def)

section \<open>The search over the stored rows\<close>

lemma match_documents_sorted:
  assumes "match_documents tie distance documents qe t c = Inr rows"
  shows "sorted_wrt (\<ge>) (map item_similarity rows)"
proof -
  define ys where "ys = take (nat c) (sort_key snd (sort_key (\<lambda>p. tie (fst p))
    (filter (\<lambda>p. 1 - snd p > t) (candidates distance documents qe))))"
  have "sorted (map snd ys)"
    unfolding ys_def by (simp add: take_map [symmetric] sorted_wrt_take)
  then have "sorted_wrt (\<lambda>a b. 1 - snd a \<ge> 1 - snd b) ys"
    by (simp add: sorted_wrt_map)
  then have "sorted_wrt (\<ge>) (map item_similarity (map select_row ys))"
    by (simp add: sorted_wrt_map select_row_def)
  moreover from assms have "rows = map select_row ys"
    by (auto simp: match_documents_def ys_def split: if_splits)
  ultimately show ?thesis by simp
qed

lemma match_documents_bounds:
  assumes "match_documents tie distance documents qe t c = Inr rows"
  shows "int (length rows) \<le> c" and "\<forall>r\<in>set rows. item_similarity r > t"
proof -
  from assms have c: "0 \<le> c"
    and rows: "rows = map select_row (take (nat c) (sort_key snd (sort_key (\<lambda>p. tie (fst p))
      (filter (\<lambda>p. 1 - snd p > t) (candidates distance documents qe)))))"
    by (auto simp: match_documents_def split: if_splits)
  from rows c show "int (length rows) \<le> c" by simp
  show "\<forall>r\<in>set rows. item_similarity r > t"
  proof
    fix r assume "r \<in> set rows"
    with rows obtain p where p: "r = select_row p"
      "p \<in> set (take (nat c) (sort_key snd (sort_key (\<lambda>p. tie (fst p))
        (filter (\<lambda>p. 1 - snd p > t) (candidates distance documents qe)))))"
      by auto
    from p(2) have "p \<in> set (filter (\<lambda>p. 1 - snd p > t) (candidates distance documents qe))"
      by (auto dest: in_set_takeD)
    with p(1) show "item_similarity r > t" by (simp add: select_row_def)
  qed
qed

lemma searchDocuments_store:
  assumes "rpc_match_documents sv = store_rpc tiebreak distance documents"
    and "data (fst (searchDocuments sv query options)) = Some rs"
  shows "\<exists>qe rows. fst (createEmbedding sv query) = Inr qe
           \<and> match_documents (tiebreak qe
                (num_or (Option.bind options threshold) SIMILARITY_THRESHOLD)
                (num_or (Option.bind options maxResults) MAX_RESULTS))
              distance documents qe
                (num_or (Option.bind options threshold) SIMILARITY_THRESHOLD)
                (num_or (Option.bind options maxResults) MAX_RESULTS) = Inr rows
           \<and> rs = map to_result rows"
  using assms
  by (auto simp: searchDocuments_def store_rpc_def failure_def Let_def
           split: prod.splits sum.splits)

lemma searchDocuments_sorted:
  assumes "rpc_match_documents sv = store_rpc tiebreak distance documents"
    and "data (fst (searchDocuments sv query options)) = Some rs"
  shows "sorted_wrt (\<ge>) (map sr_similarity rs)"
proof -
  from searchDocuments_store [OF assms] obtain qe rows where
    m: "match_documents (tiebreak qe
                (num_or (Option.bind options threshold) SIMILARITY_THRESHOLD)
                (num_or (Option.bind options maxResults) MAX_RESULTS))
              distance documents qe
          (num_or (Option.bind options threshold) SIMILARITY_THRESHOLD)
          (num_or (Option.bind options maxResults) MAX_RESULTS) = Inr rows"
    and rs: "rs = map to_result rows" by blast
  have "map sr_similarity rs = map item_similarity rows"
    by (simp add: rs to_result_def)
  with match_documents_sorted [OF m] show ?thesis by simp
qed

section \<open>The grounding context\<close>

lemma join_head: "bs \<noteq> [] \<Longrightarrow> \<exists>c. join sep bs = hd bs @ c"
  by (induction sep bs rule: join.induct) auto

lemma join_append:
  "xs \<noteq> [] \<Longrightarrow> ys \<noteq> [] \<Longrightarrow> join sep (xs @ ys) = join sep xs @ sep @ join sep ys"
  by (induction sep xs rule: join.induct) (auto simp: neq_Nil_conv)

lemma join_contains: "i < length bs \<Longrightarrow> \<exists>a c. join sep bs = a @ bs ! i @ c"
proof (induction sep bs arbitrary: i rule: join.induct)
  case (1 sep)
  then show ?case by simp
next
  case (2 sep x)
  then have "join sep [x] = [] @ [x] ! i @ []" by simp
  then show ?case by blast
next
  case (3 sep x y ys)
  show ?case
  proof (cases i)
    case 0
    then have "join sep (x # y # ys) = [] @ (x # y # ys) ! i @ (sep @ join sep (y # ys))" by simp
    then show ?thesis by blast
  next
    case (Suc j)
    with 3 obtain a c where "join sep (y # ys) = a @ (y # ys) ! j @ c" by fastforce
    with Suc have "join sep (x # y # ys) = (x @ sep @ a) @ (x # y # ys) ! i @ c" by simp
    then show ?thesis by blast
  qed
qed

lemma join_ordered:
  assumes "i < j" "j < length bs"
  shows "\<exists>a b c. join sep bs = a @ bs ! i @ b @ bs ! j @ c"
proof -
  have ne: "take j bs \<noteq> []" "drop j bs \<noteq> []" using assms by auto
  have "join sep bs = join sep (take j bs @ drop j bs)" by simp
  also have "\<dots> = join sep (take j bs) @ sep @ join sep (drop j bs)"
    using ne by (rule join_append)
  finally have e: "join sep bs = join sep (take j bs) @ sep @ join sep (drop j bs)" .
  obtain a c where 1: "join sep (take j bs) = a @ bs ! i @ c"
    using join_contains [of i "take j bs" sep] assms by auto
  obtain d where 2: "join sep (drop j bs) = bs ! j @ d"
    using join_head [OF ne(2), of sep] assms by (auto simp: hd_drop_conv_nth)
  from e 1 2 have "join sep bs = a @ bs ! i @ (c @ sep) @ bs ! j @ d" by simp
  then show ?thesis by blast
qed

lemma context_of_nth:
  "context_of rs = join (newline @ newline) (map (\<lambda>i. document_block i (rs ! i)) [0..<length rs])"
proof -
  have "map (\<lambda>(idx, doc). document_block idx doc) (enumerate 0 rs)
        = map (\<lambda>i. document_block i (rs ! i)) [0..<length rs]"
    by (rule nth_equalityI) (auto simp: nth_enumerate_eq)
  then show ?thesis by (simp add: context_of_def)
qed

text \<open>
  C8. When the search of a query succeeds with a non-empty list of results,
  \<open>ragAgent\<close> issues exactly one chat-completion request. Its system message is
  the fixed head, the context and the fixed tail, and the context joins, in the order
  of the results, one block per result: the heading \<open>[Document N]\<close> with N the
  position counted from 1, a line break, and the content of the result. Every block
  occurs in the context, and an earlier result's block occurs before a later one's.
  When the store answers from its table, the results are in descending similarity.
\<close>

theorem ragAgent_grounded:
  assumes "success (fst (searchDocuments sv query (Some \<lparr>threshold = Some 0.7, maxResults = Some 3\<rparr>)))"
    and "data (fst (searchDocuments sv query (Some \<lparr>threshold = Some 0.7, maxResults = Some 3\<rparr>))) = Some rs"
    and "rs \<noteq> []"
  shows "(\<exists>req. filter is_chat (snd (ragAgent sv query)) = [ChatCreate req]
            \<and> req_messages req
               = [(''system'', prompt_head @ context_of rs @ prompt_tail), (''user'', query)])
       \<and> context_of rs
           = join (newline @ newline)
               (map (\<lambda>i. ''[Document '' @ show_nat (i + 1) @ '']'' @ newline @ sr_content (rs ! i))
                    [0..<length rs])
       \<and> (\<forall>i j. i < j \<and> j < length rs \<longrightarrow>
             (\<exists>a b c. context_of rs
                = a @ document_block i (rs ! i) @ b @ document_block j (rs ! j) @ c))
       \<and> (\<forall>i. i < length rs \<longrightarrow>
             (\<exists>a c. context_of rs = a @ document_block i (rs ! i) @ c))
       \<and> (rpc_match_documents sv = store_rpc tiebreak distance documents
            \<longrightarrow> sorted_wrt (\<ge>) (map sr_similarity rs))"
proof -
  let ?opts = "Some \<lparr>threshold = Some 0.7, maxResults = Some 3\<rparr>"
  obtain r tr where s: "searchDocuments sv query ?opts = (r, tr)"
    by (cases "searchDocuments sv query ?opts")
  from assms s have r: "success r" "data r = Some rs" by simp_all
  have nochat: "filter is_chat tr = []"
    using searchDocuments_no_chat [of sv query ?opts] s by simp
  obtain req where req: "snd (createChatCompletion sv
        [(''system'', prompt_head @ context_of rs @ prompt_tail), (''user'', query)] None) = [ChatCreate req]"
      "req_messages req = [(''system'', prompt_head @ context_of rs @ prompt_tail), (''user'', query)]"
    using createChatCompletion_trace by blast
  have "snd (ragAgent sv query) = tr @ [ChatCreate req]"
    using r s req(1) assms(3)
    by (auto simp: ragAgent_def aiAgentWithSystemPrompt_def Let_def split: prod.splits)
  with nochat req(2) have 1: "\<exists>req. filter is_chat (snd (ragAgent sv query)) = [ChatCreate req]
            \<and> req_messages req
               = [(''system'', prompt_head @ context_of rs @ prompt_tail), (''user'', query)]"
    by simp
  have 2: "context_of rs
           = join (newline @ newline)
               (map (\<lambda>i. ''[Document '' @ show_nat (i + 1) @ '']'' @ newline @ sr_content (rs ! i))
                    [0..<length rs])"
    using context_of_nth [of rs] by (simp add: document_block_def)
  have 3: "\<exists>a b c. context_of rs
                = a @ document_block i (rs ! i) @ b @ document_block j (rs ! j) @ c"
    if "i < j \<and> j < length rs" for i j
    using join_ordered [of i j "map (\<lambda>i. document_block i (rs ! i)) [0..<length rs]" "newline @ newline"]
      that by (simp add: context_of_nth)
  have 4: "\<exists>a c. context_of rs = a @ document_block i (rs ! i) @ c" if "i < length rs" for i
    using join_contains [of i "map (\<lambda>i. document_block i (rs ! i)) [0..<length rs]" "newline @ newline"]
      that by (simp add: context_of_nth)
  have 5: "sorted_wrt (\<ge>) (map sr_similarity rs)"
    if "rpc_match_documents sv = store_rpc tiebreak distance documents"
    using searchDocuments_sorted [OF that assms(2)] .
  from 1 2 3 4 5 show ?thesis by blast
qed


theorem ragAgent_grounded_witness:
  "success (fst (searchDocuments demo_services ''q'' (Some \<lparr>threshold = Some 0.7, maxResults = Some 3\<rparr>)))
   \<and> data (fst (searchDocuments demo_services ''q'' (Some \<lparr>threshold = Some 0.7, maxResults = Some 3\<rparr>)))
       = Some [hit1, hit4]
   \<and> (\<exists>req. filter is_chat (snd (ragAgent demo_services ''q'')) = [ChatCreate req]
          \<and> req_messages req
             = [(''system'', prompt_head @ context_of [hit1, hit4] @ prompt_tail), (''user'', ''q'')])
   \<and> context_of [hit1, hit4]
       = ''[Document 1]'' @ newline @ ''alpha'' @ newline @ newline
         @ ''[Document 2]'' @ newline @ ''delta''
   \<and> (\<exists>a b c. context_of [hit1, hit4]
          = a @ document_block 0 hit1 @ b @ document_block 1 hit4 @ c)
   \<and> sorted_wrt (\<ge>) (map sr_similarity [hit1, hit4])"
proof -
  have h: "success (fst (searchDocuments demo_services ''q'' (Some \<lparr>threshold = Some 0.7, maxResults = Some 3\<rparr>)))"
    "data (fst (searchDocuments demo_services ''q'' (Some \<lparr>threshold = Some 0.7, maxResults = Some 3\<rparr>)))
       = Some [hit1, hit4]"
    "[hit1, hit4] \<noteq> []"
    by (simp_all add: demo_search_07)
  have h4: "rpc_match_documents demo_services = store_rpc demo_tiebreak demo_distance demo_documents"
    by (simp add: demo_services_def)
  note t = ragAgent_grounded [OF h(1,2,3), of demo_tiebreak demo_distance demo_documents]
  from t have 1: "\<exists>req. filter is_chat (snd (ragAgent demo_services ''q'')) = [ChatCreate req]
          \<and> req_messages req
             = [(''system'', prompt_head @ context_of [hit1, hit4] @ prompt_tail), (''user'', ''q'')]"
    by blast
  from t have "context_of [hit1, hit4]
           = join (newline @ newline)
               (map (\<lambda>i. ''[Document '' @ show_nat (i + 1) @ '']'' @ newline @ sr_content ([hit1, hit4] ! i))
                    [0..<length [hit1, hit4]])" by blast
  then have 2: "context_of [hit1, hit4]
       = ''[Document 1]'' @ newline @ ''alpha'' @ newline @ newline
         @ ''[Document 2]'' @ newline @ ''delta''"
    by (simp add: upt_rec show_nat.simps hit1_def hit4_def)
  from t have "\<forall>i j. i < j \<and> j < length [hit1, hit4] \<longrightarrow>
             (\<exists>a b c. context_of [hit1, hit4]
                = a @ document_block i ([hit1, hit4] ! i) @ b @ document_block j ([hit1, hit4] ! j) @ c)"
    by blast
  from this [rule_format, of 0 1] have 3: "\<exists>a b c. context_of [hit1, hit4]
          = a @ document_block 0 hit1 @ b @ document_block 1 hit4 @ c" by simp
  from t h4 have 4: "sorted_wrt (\<ge>) (map sr_similarity [hit1, hit4])" by blast
  from h 1 2 3 4 show ?thesis by blast
qed

section \<open>The metadata filter\<close>











section \<open>Bulk ingestion\<close>

lemma those_filled:
  "\<forall>i<length xs. xs ! i \<noteq> None \<Longrightarrow>
     \<exists>ys. those xs = Some ys \<and> length ys = length xs \<and> (\<forall>i<length xs. xs ! i = Some (ys ! i))"
proof (induction xs)
  case Nil
  then show ?case by simp
next
  case (Cons x xs)
  from Cons.prems have "\<forall>i<length xs. xs ! i \<noteq> None" by auto
  with Cons.IH obtain ys where ys: "those xs = Some ys" "length ys = length xs"
    "\<forall>i<length xs. xs ! i = Some (ys ! i)" by blast
  from Cons.prems obtain y where y: "x = Some y" by (cases x) auto
  have "\<forall>i<length (x # xs). (x # xs) ! i = Some ((y # ys) ! i)"
    using ys(3) y by (auto simp: nth_Cons split: nat.splits)
  with ys y show ?case by auto
qed

lemma promise_all_fulfilled:
  assumes "length slots = length documents"
    and "\<forall>i<length documents. \<exists>e. fst (createEmbedding sv (fst (documents ! i))) = Inr e"
    and "\<forall>i<length documents.
           (case slots ! i of None \<Rightarrow> i \<in> set order | Some rec \<Rightarrow> corresponds sv documents i rec)"
  shows "\<exists>recs. promise_all sv documents order k slots = Fulfilled recs
           \<and> length recs = length documents
           \<and> (\<forall>i<length documents. corresponds sv documents i (recs ! i))"
  using assms
proof (induction order arbitrary: k slots)
  case Nil
  then have "\<forall>i<length slots. slots ! i \<noteq> None"
    by (auto split: option.splits)
  from those_filled [OF this] obtain ys where ys: "those slots = Some ys"
    "length ys = length slots" "\<forall>i<length slots. slots ! i = Some (ys ! i)" by blast
  have "\<forall>i<length documents. corresponds sv documents i (ys ! i)"
    using Nil.prems(1,3) ys(3) by (auto split: option.splits)
  with ys Nil.prems(1) show ?case by simp
next
  case (Cons i order)
  show ?case
  proof (cases "i < length documents")
    case True
    with Cons.prems(2) obtain e where e: "fst (createEmbedding sv (fst (documents ! i))) = Inr e"
      by blast
    let ?rec = "\<lparr>nd_content = fst (documents ! i), nd_embedding = e,
                 nd_metadata = (case snd (documents ! i) of None \<Rightarrow> [] | Some m \<Rightarrow> m),
                 nd_created_at = date_now sv k\<rparr>"
    have c: "corresponds sv documents i ?rec" using e by (simp add: corresponds_def)
    have inv: "\<forall>j<length documents.
           (case slots[i := Some ?rec] ! j of None \<Rightarrow> j \<in> set order
            | Some rec \<Rightarrow> corresponds sv documents j rec)"
    proof (intro allI impI)
      fix j assume j: "j < length documents"
      show "case slots[i := Some ?rec] ! j of None \<Rightarrow> j \<in> set order
            | Some rec \<Rightarrow> corresponds sv documents j rec"
      proof (cases "j = i")
        case True
        with j c Cons.prems(1) show ?thesis by simp
      next
        case False
        with Cons.prems(3) j show ?thesis by (auto split: option.splits)
      qed
    qed
    have "length (slots[i := Some ?rec]) = length documents" using Cons.prems(1) by simp
    from Cons.IH [OF this Cons.prems(2) inv, of "Suc k"] True e show ?thesis by simp
  next
    case False
    have inv: "\<forall>j<length documents.
           (case slots ! j of None \<Rightarrow> j \<in> set order | Some rec \<Rightarrow> corresponds sv documents j rec)"
      using Cons.prems(3) False by (auto split: option.splits)
    from Cons.IH [OF Cons.prems(1,2) inv, of k] False show ?thesis by simp
  qed
qed

lemma promise_all_rejected:
  assumes "\<exists>i\<in>set order. i < length documents
             \<and> (\<exists>m. fst (createEmbedding sv (fst (documents ! i))) = Inl m)"
  shows "\<exists>m. promise_all sv documents order k slots = Rejected m"
  using assms
proof (induction order arbitrary: k slots)
  case Nil
  then show ?case by simp
next
  case (Cons i order)
  show ?case
  proof (cases "i < length documents")
    case True
    show ?thesis
    proof (cases "fst (createEmbedding sv (fst (documents ! i)))")
      case (Inl m)
      with True show ?thesis by simp
    next
      case (Inr e)
      with Cons.prems have "\<exists>i\<in>set order. i < length documents
             \<and> (\<exists>m. fst (createEmbedding sv (fst (documents ! i))) = Inl m)" by auto
      from Cons.IH [OF this] True Inr show ?thesis by simp
    qed
  next
    case False
    with Cons.prems have "\<exists>i\<in>set order. i < length documents
             \<and> (\<exists>m. fst (createEmbedding sv (fst (documents ! i))) = Inl m)" by auto
    from Cons.IH [OF this] False show ?thesis by simp
  qed
qed

lemma valid_order_set: "valid_order order n \<Longrightarrow> set order = {0..<n}"
proof -
  assume "valid_order order n"
  then have "set (sort order) = set [0..<n]" by (simp add: valid_order_def)
  then show ?thesis by simp
qed

lemma embeddings_no_insert:
  "filter is_insert (map (\<lambda>doc. EmbeddingsCreate EMBEDDING_MODEL (fst doc)) documents) = []"
  by (induction documents) auto

text \<open>
  C6. For every input sequence and every order in which the embedding calls complete,
  \<open>bulkAddDocuments\<close> returns, and when every embedding call succeeds it sends
  exactly one insert, a batch with one record per input pair in which record i has the
  content, the embedding and the metadata of input pair i. When an embedding call
  fails it sends no insert and reports failure.
\<close>

theorem bulkAddDocuments_positional:
  assumes "valid_order order (length documents)"
  shows "(\<exists>res. fst (bulkAddDocuments sv documents order) = Some res)
       \<and> (if \<forall>i<length documents. \<exists>e. fst (createEmbedding sv (fst (documents ! i))) = Inr e
          then \<exists>recs. filter is_insert (snd (bulkAddDocuments sv documents order))
                         = [InsertRows DOCUMENTS_TABLE recs]
                 \<and> length recs = length documents
                 \<and> (\<forall>i<length documents. corresponds sv documents i (recs ! i))
          else filter is_insert (snd (bulkAddDocuments sv documents order)) = []
               \<and> (\<exists>res. fst (bulkAddDocuments sv documents order) = Some res \<and> \<not> bulk_success res))"
proof (cases "\<forall>i<length documents. \<exists>e. fst (createEmbedding sv (fst (documents ! i))) = Inr e")
  case True
  have inv: "\<forall>i<length documents.
           (case replicate (length documents) None ! i of None \<Rightarrow> i \<in> set order
            | Some rec \<Rightarrow> corresponds sv documents i rec)"
    using valid_order_set [OF assms] by simp
  from promise_all_fulfilled [OF _ True inv, of 0] obtain recs where
    recs: "promise_all sv documents order 0 (replicate (length documents) None) = Fulfilled recs"
      "length recs = length documents"
      "\<forall>i<length documents. corresponds sv documents i (recs ! i)" by auto
  have "filter is_insert (snd (bulkAddDocuments sv documents order)) = [InsertRows DOCUMENTS_TABLE recs]"
    using recs(1) embeddings_no_insert [of documents]
    by (simp add: bulkAddDocuments_def Let_def split: sum.splits)
  moreover have "\<exists>res. fst (bulkAddDocuments sv documents order) = Some res"
    using recs(1) by (simp add: bulkAddDocuments_def Let_def split: sum.splits)
  ultimately show ?thesis using True recs by auto
next
  case False
  then obtain i where i: "i < length documents"
    "\<not> (\<exists>e. fst (createEmbedding sv (fst (documents ! i))) = Inr e)" by blast
  then obtain m where "fst (createEmbedding sv (fst (documents ! i))) = Inl m"
    by (cases "fst (createEmbedding sv (fst (documents ! i)))") auto
  with i(1) valid_order_set [OF assms] have "\<exists>i\<in>set order. i < length documents
             \<and> (\<exists>m. fst (createEmbedding sv (fst (documents ! i))) = Inl m)" by auto
  from promise_all_rejected [OF this] obtain m' where
    "promise_all sv documents order 0 (replicate (length documents) None) = Rejected m'" by blast
  then have "filter is_insert (snd (bulkAddDocuments sv documents order)) = []"
      "\<exists>res. fst (bulkAddDocuments sv documents order) = Some res \<and> \<not> bulk_success res"
    using embeddings_no_insert [of documents]
    by (simp_all add: bulkAddDocuments_def Let_def)
  with False show ?thesis by auto
qed

lemma demo_bulk:
  "bulkAddDocuments demo_services [(''a'', Some []), (''b'', None)] [1, 0]
     = (Some \<lparr>bulk_success = True, bulk_count = Some 2, bulk_error = None\<rparr>,
        [EmbeddingsCreate EMBEDDING_MODEL ''a'', EmbeddingsCreate EMBEDDING_MODEL ''b'',
         InsertRows DOCUMENTS_TABLE
           [\<lparr>nd_content = ''a'', nd_embedding = [0], nd_metadata = [], nd_created_at = ''1''\<rparr>,
            \<lparr>nd_content = ''b'', nd_embedding = [0], nd_metadata = [], nd_created_at = ''0''\<rparr>]])"
  by (simp add: bulkAddDocuments_def createEmbedding_def demo_services_def Let_def show_nat.simps)

theorem bulkAddDocuments_positional_witness:
  "valid_order [1, 0] (length [(''a'', Some []), (''b'', None :: metadata option)])
   \<and> (\<exists>recs. filter is_insert (snd (bulkAddDocuments demo_services [(''a'', Some []), (''b'', None)] [1, 0]))
                = [InsertRows DOCUMENTS_TABLE recs]
        \<and> length recs = 2
        \<and> nd_content (recs ! 0) = ''a'' \<and> nd_content (recs ! 1) = ''b'')
   \<and> snd (bulkAddDocuments demo_services [(''a'', Some []), (''b'', None)] [1, 0])
       = [EmbeddingsCreate EMBEDDING_MODEL ''a'', EmbeddingsCreate EMBEDDING_MODEL ''b'',
          InsertRows DOCUMENTS_TABLE
            [\<lparr>nd_content = ''a'', nd_embedding = [0], nd_metadata = [], nd_created_at = ''1''\<rparr>,
             \<lparr>nd_content = ''b'', nd_embedding = [0], nd_metadata = [], nd_created_at = ''0''\<rparr>]]"
proof -
  have v: "valid_order [1, 0] (length [(''a'', Some []), (''b'', None :: metadata option)])"
    by (simp add: valid_order_def upt_rec)
  have ok: "\<forall>i<length [(''a'', Some []), (''b'', None :: metadata option)].
      \<exists>e. fst (createEmbedding demo_services (fst ([(''a'', Some []), (''b'', None)] ! i))) = Inr e"
    by (simp add: createEmbedding_def demo_services_def less_Suc_eq)
  have "\<exists>recs. filter is_insert (snd (bulkAddDocuments demo_services [(''a'', Some []), (''b'', None)] [1, 0]))
                = [InsertRows DOCUMENTS_TABLE recs]
      \<and> length recs = length [(''a'', Some []), (''b'', None :: metadata option)]
      \<and> (\<forall>i<length [(''a'', Some []), (''b'', None :: metadata option)].
            corresponds demo_services [(''a'', Some []), (''b'', None)] i (recs ! i))"
    using bulkAddDocuments_positional [OF v, of demo_services, THEN conjunct2]
    unfolding if_P [OF ok] .
  then obtain recs where recs: "filter is_insert (snd (bulkAddDocuments demo_services [(''a'', Some []), (''b'', None)] [1, 0]))
                = [InsertRows DOCUMENTS_TABLE recs]"
    "length recs = length [(''a'', Some []), (''b'', None :: metadata option)]"
    "\<forall>i<length [(''a'', Some []), (''b'', None :: metadata option)].
        corresponds demo_services [(''a'', Some []), (''b'', None)] i (recs ! i)"
    by blast
  from recs(3) have "corresponds demo_services [(''a'', Some []), (''b'', None)] 0 (recs ! 0)"
    "corresponds demo_services [(''a'', Some []), (''b'', None)] 1 (recs ! 1)" by simp_all
  then have "nd_content (recs ! 0) = ''a''" "nd_content (recs ! 1) = ''b''"
    by (simp_all add: corresponds_def)
  with recs(1,2) v demo_bulk show ?thesis by auto
qed

section \<open>Limits and thresholds of the search\<close>

lemma searchDocuments_within_options:
  assumes "rpc_match_documents sv = store_rpc tiebreak distance documents"
    and "data (fst (searchDocuments sv query options)) = Some rs"
  shows "int (length rs) \<le> num_or (Option.bind options maxResults) MAX_RESULTS"
    and "\<forall>r\<in>set rs. sr_similarity r > num_or (Option.bind options threshold) SIMILARITY_THRESHOLD"
    and "sorted_wrt (\<ge>) (map sr_similarity rs)"
proof -
  from searchDocuments_store [OF assms] obtain qe rows where
    m: "match_documents (tiebreak qe
                (num_or (Option.bind options threshold) SIMILARITY_THRESHOLD)
                (num_or (Option.bind options maxResults) MAX_RESULTS))
              distance documents qe
          (num_or (Option.bind options threshold) SIMILARITY_THRESHOLD)
          (num_or (Option.bind options maxResults) MAX_RESULTS) = Inr rows"
    and rs: "rs = map to_result rows" by blast
  from match_documents_bounds(1) [OF m] rs
  show "int (length rs) \<le> num_or (Option.bind options maxResults) MAX_RESULTS" by simp
  from match_documents_bounds(2) [OF m] rs
  show "\<forall>r\<in>set rs. sr_similarity r > num_or (Option.bind options threshold) SIMILARITY_THRESHOLD"
    by (auto simp: to_result_def)
  from searchDocuments_sorted [OF assms] show "sorted_wrt (\<ge>) (map sr_similarity rs)" .
qed

lemma searchDocuments_returns:
  assumes "rpc_match_documents sv = store_rpc tiebreak distance documents"
    and "fst (createEmbedding sv query) = Inr qe"
    and "0 \<le> num_or (Option.bind options maxResults) MAX_RESULTS"
  shows "\<exists>rs. fst (searchDocuments sv query options) = \<lparr>success = True, data = Some rs, error = None\<rparr>"
  using assms
  by (auto simp: searchDocuments_def store_rpc_def match_documents_def Let_def
           split: prod.splits sum.splits)

text \<open>
  C2. Against the stored rows, whatever order the database gives to equal distances:
  for every query, every threshold and every positive maxResults, the search returns
  a list whenever the query is embedded, and a returned list holds at most maxResults
  items, each of similarity strictly above the threshold, in descending similarity.
\<close>

theorem searchDocuments_bounded:
  assumes "rpc_match_documents sv = store_rpc tiebreak distance documents"
    and "0 < m"
  shows "(\<forall>qe. fst (createEmbedding sv query) = Inr qe \<longrightarrow>
            (\<exists>rs. fst (searchDocuments sv query (Some \<lparr>threshold = Some t, maxResults = Some m\<rparr>))
                    = \<lparr>success = True, data = Some rs, error = None\<rparr>))
       \<and> (\<forall>rs. data (fst (searchDocuments sv query (Some \<lparr>threshold = Some t, maxResults = Some m\<rparr>)))
                  = Some rs \<longrightarrow>
              int (length rs) \<le> m
              \<and> (\<forall>r\<in>set rs. t < sr_similarity r)
              \<and> sorted_wrt (\<ge>) (map sr_similarity rs))"
proof -
  let ?opts = "Some \<lparr>threshold = Some t, maxResults = Some m\<rparr>"
  have cnt: "num_or (Option.bind ?opts maxResults) MAX_RESULTS = m"
    using assms(2) by (simp add: num_or_def)
  have thr: "t \<le> num_or (Option.bind ?opts threshold) SIMILARITY_THRESHOLD"
    by (simp add: num_or_def SIMILARITY_THRESHOLD_def)
  have 1: "\<exists>rs. fst (searchDocuments sv query ?opts) = \<lparr>success = True, data = Some rs, error = None\<rparr>"
    if "fst (createEmbedding sv query) = Inr qe" for qe
    using searchDocuments_returns [OF assms(1) that, of ?opts] cnt assms(2) by simp
  have 2: "int (length rs) \<le> m \<and> (\<forall>r\<in>set rs. t < sr_similarity r)
              \<and> sorted_wrt (\<ge>) (map sr_similarity rs)"
    if d: "data (fst (searchDocuments sv query ?opts)) = Some rs" for rs
  proof -
    note b = searchDocuments_within_options [OF assms(1) d]
    from b(1) cnt have "int (length rs) \<le> m" by simp
    moreover have "t < sr_similarity r" if "r \<in> set rs" for r
      using b(2) thr that by fastforce
    ultimately show ?thesis using b(3) by blast
  qed
  from 1 2 show ?thesis by blast
qed

lemma demo_search_05_2:
  "fst (searchDocuments demo_services ''q'' (Some \<lparr>threshold = Some 0.5, maxResults = Some 2\<rparr>))
     = \<lparr>success = True, data = Some [hit1, hit4], error = None\<rparr>"
  by (simp add: demo_simps)

theorem searchDocuments_bounded_witness:
  "rpc_match_documents demo_services = store_rpc demo_tiebreak demo_distance demo_documents
   \<and> (0::int) < 2
   \<and> fst (searchDocuments demo_services ''q'' (Some \<lparr>threshold = Some 0.5, maxResults = Some 2\<rparr>))
       = \<lparr>success = True, data = Some [hit1, hit4], error = None\<rparr>
   \<and> int (length [hit1, hit4]) \<le> 2
   \<and> 0.5 < sr_similarity hit1 \<and> 0.5 < sr_similarity hit4
   \<and> sorted_wrt (\<ge>) (map sr_similarity [hit1, hit4])"
proof -
  have r: "rpc_match_documents demo_services = store_rpc demo_tiebreak demo_distance demo_documents"
    by (simp add: demo_services_def)
  have m: "(0::int) < 2" by simp
  have d: "data (fst (searchDocuments demo_services ''q'' (Some \<lparr>threshold = Some 0.5, maxResults = Some 2\<rparr>)))
             = Some [hit1, hit4]"
    using demo_search_05_2 by simp
  from searchDocuments_bounded [OF r m, of "''q''" "0.5", THEN conjunct2] d
  have "int (length [hit1, hit4]) \<le> 2 \<and> (\<forall>r\<in>set [hit1, hit4]. 0.5 < sr_similarity r)
          \<and> sorted_wrt (\<ge>) (map sr_similarity [hit1, hit4])"
    by blast
  then have "int (length [hit1, hit4]) \<le> 2" "0.5 < sr_similarity hit1" "0.5 < sr_similarity hit4"
    "sorted_wrt (\<ge>) (map sr_similarity [hit1, hit4])"
    by simp_all
  with r m demo_search_05_2 show ?thesis by blast
qed

text \<open>
  C3 at threshold 0. With maxResults 3, the search with threshold 0 sends 0.7 and
  returns two results, and the search with the higher threshold 0.5 returns three:
  the results of the higher threshold are not among those of the lower one.
\<close>

theorem searchDocuments_threshold_zero:
  "(0::real) < 0.5
   \<and> fst (searchDocuments demo_services ''q'' (Some \<lparr>threshold = Some 0, maxResults = Some 3\<rparr>))
       = \<lparr>success = True, data = Some [hit1, hit4], error = None\<rparr>
   \<and> fst (searchDocuments demo_services ''q'' (Some \<lparr>threshold = Some 0.5, maxResults = Some 3\<rparr>))
       = \<lparr>success = True, data = Some [hit1, hit4, hit2], error = None\<rparr>
   \<and> \<not> set [hit1, hit4, hit2] \<subseteq> set [hit1, hit4]"
  by (simp add: demo_simps)

end
